theory Spec2Isabelle
  imports Complex_Main "HOL-Library.AList"
begin

section \<open>Data model\<close>

text \<open>
  Python floats are modelled as \<^typ>\<open>real\<close>: every number is finite and arithmetic is
  exact. Agent objects are shared between the engine's registry, the world's registry and
  the event manager's handler lists, so they live in an explicit store indexed by object
  identity (\<open>ref\<close>); the dictionaries hold references. A Python \<open>dict\<close> is an
  association list in insertion order with distinct keys.
\<close>

type_synonym ref = nat

datatype error = AgentError | CallbackError | SenseError

datatype event_type =
  AGENT_SPAWN | AGENT_DEATH | AGENT_MOVE | AGENT_INTERACT | ENVIRONMENT_CHANGE | COLLISION | CUSTOM

text \<open>The payload of an event (\<open>Event.data\<close>); only the payloads the core builds.\<close>

datatype event_data =
  NoData
  | SpawnPosition ref
  | FinalPosition ref
  | BoundaryCollision real real
  | AgentCollision real "real \<times> real" "real \<times> real"

text \<open>\<open>Event\<close>; the wall-clock \<open>timestamp\<close> and the random \<open>event_id\<close> are never read.\<close>

record event =
  ev_type :: event_type
  source_id :: string
  target_id :: "string option"
  data :: event_data

text \<open>An entry of \<open>Agent.memory\<close>, as \<open>Agent.handle_event\<close> builds it.\<close>

record memory_item =
  mi_type :: string
  mi_event_type :: event_type
  mi_source :: string
  mi_data :: event_data

text \<open>\<open>Position\<close>: a pair \<open>(x, y)\<close>.\<close>

type_synonym Position = "real \<times> real"

definition distance_to :: "Position \<Rightarrow> Position \<Rightarrow> real" where
  "distance_to p q = sqrt ((fst p - fst q)\<^sup>2 + (snd p - snd q)\<^sup>2)"

text \<open>\<open>Agent\<close> together with its \<open>AgentState\<close> (the fields the core reads or writes).\<close>

record agent =
  agent_id :: string
  position :: Position
  velocity :: "real \<times> real"
  energy :: real
  health :: real
  age :: int
  active :: bool
  last_action :: "string option"
  memory :: "memory_item list"

text \<open>
  The operations whose order within a tick matters, recorded in a log that the
  operations append to as they run.
\<close>

datatype op =
  OpCallback string
  | OpGridRefresh
  | OpPhysics
  | OpEnvironment
  | OpSense ref
  | OpUpdate ref
  | OpUpdateFailed ref
  | OpRemove string

text \<open>
  The process-wide state: the store of agent objects, the module-level random number
  generator (the values \<open>random.random()\<close> will return, and how many were consumed), and
  the operation log.
\<close>

record glob =
  objs :: "ref \<Rightarrow> agent"
  rnd :: "nat \<Rightarrow> real"
  rnd_pos :: nat
  trace :: "op list"

definition random_random :: "glob \<Rightarrow> real \<times> glob" where
  "random_random g = (rnd g (rnd_pos g), g\<lparr>rnd_pos := rnd_pos g + 1\<rparr>)"

definition random_uniform :: "real \<Rightarrow> real \<Rightarrow> glob \<Rightarrow> real \<times> glob" where
  "random_uniform a b g = (let (u, g') = random_random g in (a + (b - a) * u, g'))"

definition set_obj :: "ref \<Rightarrow> agent \<Rightarrow> glob \<Rightarrow> glob" where
  "set_obj r a g = g\<lparr>objs := (objs g)(r := a)\<rparr>"

definition log_op :: "op \<Rightarrow> glob \<Rightarrow> glob" where
  "log_op x g = g\<lparr>trace := trace g @ [x]\<rparr>"

section \<open>SpatialGrid\<close>

text \<open>
  A cell (a Python \<open>set\<close> of ids) is a duplicate-free list; \<open>grid\<close> is the
  \<open>defaultdict\<close>, total with default \<open>[]\<close>.
\<close>

record spatial_grid =
  grid_width :: real
  grid_height :: real
  cell_size :: real
  cols :: int
  rows :: int
  grid :: "int \<times> int \<Rightarrow> string list"
  agent_positions :: "string \<rightharpoonup> int \<times> int"

text \<open>Python's \<open>int(x)\<close> on a float truncates towards zero.\<close>

definition py_int :: "real \<Rightarrow> int" where
  "py_int v = (if 0 \<le> v then \<lfloor>v\<rfloor> else \<lceil>v\<rceil>)"

definition SpatialGrid_init :: "real \<Rightarrow> real \<Rightarrow> real \<Rightarrow> spatial_grid" where
  "SpatialGrid_init w h cs =
     \<lparr>grid_width = w, grid_height = h, cell_size = cs,
      cols = max 1 \<lceil>w / cs\<rceil>, rows = max 1 \<lceil>h / cs\<rceil>,
      grid = (\<lambda>_. []), agent_positions = Map.empty\<rparr>"

definition get_cell_coords :: "spatial_grid \<Rightarrow> Position \<Rightarrow> int \<times> int" where
  "get_cell_coords G p =
     (max 0 (min (cols G - 1) (py_int (fst p / cell_size G))),
      max 0 (min (rows G - 1) (py_int (snd p / cell_size G))))"

definition set_add :: "string \<Rightarrow> string list \<Rightarrow> string list" where
  "set_add i xs = (if i \<in> set xs then xs else xs @ [i])"

definition set_discard :: "string \<Rightarrow> string list \<Rightarrow> string list" where
  "set_discard i xs = removeAll i xs"

definition SpatialGrid_add_agent :: "agent \<Rightarrow> spatial_grid \<Rightarrow> spatial_grid" where
  "SpatialGrid_add_agent a G =
     (let cell_coords = get_cell_coords G (position a)
      in G\<lparr>grid := (grid G)(cell_coords := set_add (agent_id a) (grid G cell_coords)),
            agent_positions := (agent_positions G)(agent_id a \<mapsto> cell_coords)\<rparr>)"

definition SpatialGrid_remove_agent :: "string \<Rightarrow> spatial_grid \<Rightarrow> spatial_grid" where
  "SpatialGrid_remove_agent i G =
     (case agent_positions G i of
        None \<Rightarrow> G
      | Some old_coords \<Rightarrow>
          G\<lparr>grid := (grid G)(old_coords := set_discard i (grid G old_coords)),
            agent_positions := (agent_positions G)(i := None)\<rparr>)"

definition SpatialGrid_update_agent :: "agent \<Rightarrow> spatial_grid \<Rightarrow> spatial_grid" where
  "SpatialGrid_update_agent a G =
     (let new_coords = get_cell_coords G (position a)
      in case agent_positions G (agent_id a) of
           Some old_coords \<Rightarrow>
             if old_coords \<noteq> new_coords then
               (let g1 = (grid G)(old_coords := set_discard (agent_id a) (grid G old_coords));
                    g2 = g1(new_coords := set_add (agent_id a) (g1 new_coords))
                in G\<lparr>grid := g2,
                      agent_positions := (agent_positions G)(agent_id a \<mapsto> new_coords)\<rparr>)
             else G
         | None \<Rightarrow> SpatialGrid_add_agent a G)"

text \<open>\<open>range(a, b)\<close> over the integers.\<close>

definition py_range :: "int \<Rightarrow> int \<Rightarrow> int list" where
  "py_range a b = [a..b - 1]"

definition get_nearby_agents ::
  "spatial_grid \<Rightarrow> Position \<Rightarrow> real \<Rightarrow> string option \<Rightarrow> string list" where
  "get_nearby_agents G p radius exclude_id =
     (let cell_radius = \<lceil>radius / cell_size G\<rceil>;
          (center_col, center_row) = get_cell_coords G p;
          nearby_agents =
            concat (map (\<lambda>row.
              concat (map (\<lambda>col. grid G (col, row))
                (py_range (max 0 (center_col - cell_radius))
                          (min (cols G) (center_col + cell_radius + 1)))))
              (py_range (max 0 (center_row - cell_radius))
                        (min (rows G) (center_row + cell_radius + 1))))
      in filter (\<lambda>i. Some i \<noteq> exclude_id) nearby_agents)"

section \<open>PhysicsEngine\<close>

record force =
  fx :: real
  fy :: real
  duration :: real

record physics =
  world_width :: real
  world_height :: real
  friction :: real
  bounce_damping :: real
  collision_radius :: real
  agent_forces :: "string \<rightharpoonup> force list"
  gravity :: "real \<times> real"
  wind :: "real \<times> real"

definition PhysicsEngine_init :: "real \<Rightarrow> real \<Rightarrow> physics" where
  "PhysicsEngine_init w h =
     \<lparr>world_width = w, world_height = h,
      friction = 95 / 100, bounce_damping = 7 / 10, collision_radius = 2,
      agent_forces = Map.empty, gravity = (0, 0), wind = (0, 0)\<rparr>"

definition apply_force :: "string \<Rightarrow> force \<Rightarrow> physics \<Rightarrow> physics" where
  "apply_force i f P =
     P\<lparr>agent_forces := (agent_forces P)
          (i \<mapsto> (case agent_forces P i of None \<Rightarrow> [] | Some fs \<Rightarrow> fs) @ [f])\<rparr>"

definition set_gravity :: "real \<Rightarrow> real \<Rightarrow> physics \<Rightarrow> physics" where
  "set_gravity gx gy P = P\<lparr>gravity := (gx, gy)\<rparr>"

definition set_wind :: "real \<Rightarrow> real \<Rightarrow> physics \<Rightarrow> physics" where
  "set_wind wx wy P = P\<lparr>wind := (wx, wy)\<rparr>"

definition calculate_total_forces :: "physics \<Rightarrow> string \<Rightarrow> real \<times> real" where
  "calculate_total_forces P i =
     (let total_fx = fst (gravity P) + fst (wind P);
          total_fy = snd (gravity P) + snd (wind P)
      in case agent_forces P i of
           None \<Rightarrow> (total_fx, total_fy)
         | Some fs \<Rightarrow> fold (\<lambda>f (tx, ty). (tx + fx f, ty + fy f)) fs (total_fx, total_fy))"

text \<open>
  \<open>_handle_boundaries\<close> reads the velocity stored in the agent (the caller has not yet
  written the integrated one back), clamps the candidate position, reflects, and stores
  position and velocity. The result is the updated agent and the optional event.
\<close>

definition handle_boundaries :: "physics \<Rightarrow> agent \<Rightarrow> real \<Rightarrow> real \<Rightarrow> agent \<times> event option" where
  "handle_boundaries P a new_x new_y =
     (let (vx, vy) = velocity a;
          (new_x, vx, cx) =
            (if new_x < 0 then (0, - vx * bounce_damping P, True)
             else if new_x > world_width P then (world_width P, - vx * bounce_damping P, True)
             else (new_x, vx, False));
          (new_y, vy, collision) =
            (if new_y < 0 then (0, - vy * bounce_damping P, True)
             else if new_y > world_height P then (world_height P, - vy * bounce_damping P, True)
             else (new_y, vy, cx));
          a' = a\<lparr>position := (new_x, new_y), velocity := (vx, vy)\<rparr>
      in (a', if collision
              then Some \<lparr>ev_type = COLLISION, source_id = agent_id a, target_id = None,
                         data = BoundaryCollision new_x new_y\<rparr>
              else None))"

definition cleanup_forces :: "string \<Rightarrow> physics \<Rightarrow> physics" where
  "cleanup_forces i P =
     (case agent_forces P i of
        None \<Rightarrow> P
      | Some fs \<Rightarrow>
          P\<lparr>agent_forces := (agent_forces P)
               (i \<mapsto> filter (\<lambda>f. duration f > 0)
                         (map (\<lambda>f. f\<lparr>duration := duration f - 1\<rparr>) fs))\<rparr>)"

text \<open>The body of the per-agent loop of \<open>PhysicsEngine.update\<close>, for one dictionary item.\<close>

definition physics_update_agent ::
  "real \<Rightarrow> string \<times> ref \<Rightarrow> event list \<times> physics \<times> glob \<Rightarrow> event list \<times> physics \<times> glob" where
  "physics_update_agent dt item st =
     (let (i, r) = item;
          (events, P, g) = st;
          a = objs g r;
          (total_fx, total_fy) = calculate_total_forces P i;
          (vx, vy) = velocity a;
          vx = vx + total_fx * dt;
          vy = vy + total_fy * dt;
          vx = vx * friction P;
          vy = vy * friction P;
          new_x = fst (position a) + vx * dt;
          new_y = snd (position a) + vy * dt;
          (a', collision_event) = handle_boundaries P a new_x new_y;
          (events, vx, vy) =
            (case collision_event of
               Some e \<Rightarrow> (events @ [e], fst (velocity a'), snd (velocity a'))
             | None \<Rightarrow> (events, vx, vy));
          a'' = a'\<lparr>velocity := (vx, vy)\<rparr>
      in (events, cleanup_forces i P, set_obj r a'' g))"

text \<open>
  \<open>_resolve_collision\<close> on two agent objects. Two references to one object give distance
  zero, so the early return covers aliasing.
\<close>

definition resolve_collision :: "physics \<Rightarrow> ref \<Rightarrow> ref \<Rightarrow> glob \<Rightarrow> glob" where
  "resolve_collision P r1 r2 g =
     (let a1 = objs g r1; a2 = objs g r2;
          dx = fst (position a2) - fst (position a1);
          dy = snd (position a2) - snd (position a1);
          distance = sqrt (dx * dx + dy * dy)
      in if distance = 0 then g
         else
           (let nx = dx / distance;
                ny = dy / distance;
                overlap = collision_radius P * 2 - distance;
                separation = overlap / 2;
                (v1x, v1y) = velocity a1;
                (v2x, v2y) = velocity a2;
                v1n = v1x * nx + v1y * ny;
                v2n = v2x * nx + v2y * ny;
                new_v1n = v2n * bounce_damping P;
                new_v2n = v1n * bounce_damping P;
                impact_force = \<bar>v1n - v2n\<bar>;
                damage = min 1 (impact_force * (1 / 10));
                a1' = a1\<lparr>position := (fst (position a1) - nx * separation,
                                        snd (position a1) - ny * separation),
                          velocity := (v1x + (new_v1n - v1n) * nx, v1y + (new_v1n - v1n) * ny),
                          health := max 0 (health a1 - damage)\<rparr>;
                a2' = a2\<lparr>position := (fst (position a2) + nx * separation,
                                        snd (position a2) + ny * separation),
                          velocity := (v2x + (new_v2n - v2n) * nx, v2y + (new_v2n - v2n) * ny),
                          health := max 0 (health a2 - damage)\<rparr>
            in set_obj r2 a2' (set_obj r1 a1' g)))"

text \<open>The inner loop of \<open>_check_agent_collisions\<close>: \<open>agent1\<close> against the agents after it.\<close>

fun collide_with :: "physics \<Rightarrow> ref \<Rightarrow> ref list \<Rightarrow> event list \<times> glob \<Rightarrow> event list \<times> glob" where
  "collide_with P r1 [] st = st"
| "collide_with P r1 (r2 # rest) (events, g) =
     (let distance = distance_to (position (objs g r1)) (position (objs g r2))
      in if distance < collision_radius P * 2 then
           (let g' = resolve_collision P r1 r2 g;
                e = \<lparr>ev_type = COLLISION, source_id = agent_id (objs g' r1),
                     target_id = Some (agent_id (objs g' r2)),
                     data = AgentCollision distance (position (objs g' r1))
                                           (position (objs g' r2))\<rparr>
            in collide_with P r1 rest (events @ [e], g'))
         else collide_with P r1 rest (events, g))"

fun check_agent_collisions_loop ::
  "physics \<Rightarrow> ref list \<Rightarrow> event list \<times> glob \<Rightarrow> event list \<times> glob" where
  "check_agent_collisions_loop P [] st = st"
| "check_agent_collisions_loop P (r1 # rest) st =
     check_agent_collisions_loop P rest (collide_with P r1 rest st)"

definition check_agent_collisions :: "physics \<Rightarrow> (string \<times> ref) list \<Rightarrow> glob \<Rightarrow> event list \<times> glob" where
  "check_agent_collisions P agents g = check_agent_collisions_loop P (map snd agents) ([], g)"

definition PhysicsEngine_update ::
  "(string \<times> ref) list \<Rightarrow> real \<Rightarrow> physics \<Rightarrow> glob \<Rightarrow> event list \<times> physics \<times> glob" where
  "PhysicsEngine_update agents dt P g =
     (let (events, P', g1) = fold (physics_update_agent dt) agents ([], P, log_op OpPhysics g);
          (collision_events, g2) = check_agent_collisions P' agents g1
      in (events @ collision_events, P', g2))"

section \<open>World\<close>

record feature =
  feat_position :: Position
  feature_type :: string
  radius :: real
  properties :: "string \<rightharpoonup> real"
  feat_active :: bool

record world =
  width :: real
  height :: real
  spatial_grid :: spatial_grid
  physics :: physics
  world_agents :: "(string \<times> ref) list"
  features :: "feature list"
  time :: real
  temperature :: real
  humidity :: real
  wind_speed :: real
  wind_direction :: real
  total_agents_created :: int
  total_agents_removed :: int

text \<open>The two loops of \<open>_initialize_environment\<close>; every \<open>random.uniform\<close> is one draw.\<close>

fun add_obstacles :: "nat \<Rightarrow> real \<Rightarrow> real \<Rightarrow> feature list \<times> glob \<Rightarrow> feature list \<times> glob" where
  "add_obstacles 0 w h st = st"
| "add_obstacles (Suc n) w h (fs, g) =
     (let (x, g) = random_uniform 50 (w - 50) g;
          (y, g) = random_uniform 50 (h - 50) g;
          (rad, g) = random_uniform 10 30 g;
          (hardness, g) = random_uniform (1 / 2) 1 g;
          obstacle = \<lparr>feat_position = (x, y), feature_type = ''obstacle'', radius = rad,
                      properties = [''hardness'' \<mapsto> hardness], feat_active = True\<rparr>
      in add_obstacles n w h (fs @ [obstacle], g))"

fun add_resources :: "nat \<Rightarrow> real \<Rightarrow> real \<Rightarrow> feature list \<times> glob \<Rightarrow> feature list \<times> glob" where
  "add_resources 0 w h st = st"
| "add_resources (Suc n) w h (fs, g) =
     (let (x, g) = random_uniform 20 (w - 20) g;
          (y, g) = random_uniform 20 (h - 20) g;
          (rad, g) = random_uniform 15 40 g;
          (energy_value, g) = random_uniform 10 50 g;
          (regeneration_rate, g) = random_uniform (1 / 10) (1 / 2) g;
          resource = \<lparr>feat_position = (x, y), feature_type = ''resource'', radius = rad,
                      properties = [''energy_value'' \<mapsto> energy_value,
                                    ''regeneration_rate'' \<mapsto> regeneration_rate],
                      feat_active = True\<rparr>
      in add_resources n w h (fs @ [resource], g))"

definition initialize_environment :: "world \<Rightarrow> glob \<Rightarrow> world \<times> glob" where
  "initialize_environment w g =
     (let num_obstacles = py_int (width w * height w / 50000);
          (fs, g) = add_obstacles (nat num_obstacles) (width w) (height w) (features w, g);
          num_resources = py_int (real_of_int num_obstacles / 2);
          (fs, g) = add_resources (nat num_resources) (width w) (height w) (fs, g)
      in (w\<lparr>features := fs\<rparr>, g))"

definition World_init :: "real \<Rightarrow> real \<Rightarrow> real \<Rightarrow> glob \<Rightarrow> world \<times> glob" where
  "World_init w h cs g =
     initialize_environment
       \<lparr>width = w, height = h,
        spatial_grid = SpatialGrid_init w h cs,
        physics = PhysicsEngine_init w h,
        world_agents = [], features = [],
        time = 0, temperature = 20, humidity = 1 / 2, wind_speed = 0, wind_direction = 0,
        total_agents_created = 0, total_agents_removed = 0\<rparr> g"

definition World_add_agent :: "ref \<Rightarrow> world \<Rightarrow> glob \<Rightarrow> world \<times> glob" where
  "World_add_agent r w g =
     (let a = objs g r;
          a = a\<lparr>position := (max 0 (min (width w) (fst (position a))), snd (position a))\<rparr>;
          a = a\<lparr>position := (fst (position a), max 0 (min (height w) (snd (position a))))\<rparr>
      in (w\<lparr>world_agents := AList.update (agent_id a) r (world_agents w),
            spatial_grid := SpatialGrid_add_agent a (spatial_grid w),
            total_agents_created := total_agents_created w + 1\<rparr>,
          set_obj r a g))"

definition World_remove_agent :: "ref \<Rightarrow> world \<Rightarrow> glob \<Rightarrow> world" where
  "World_remove_agent r w g =
     (let i = agent_id (objs g r)
      in if i \<in> fst ` set (world_agents w) then
           w\<lparr>spatial_grid := SpatialGrid_remove_agent i (spatial_grid w),
             world_agents := AList.delete i (world_agents w),
             total_agents_removed := total_agents_removed w + 1\<rparr>
         else w)"

definition get_agents_in_radius :: "world \<Rightarrow> glob \<Rightarrow> Position \<Rightarrow> real \<Rightarrow> ref list" where
  "get_agents_in_radius w g p rad =
     (let nearby_agent_ids = get_nearby_agents (spatial_grid w) p rad None
      in concat (map (\<lambda>i. case map_of (world_agents w) i of
                             None \<Rightarrow> []
                           | Some r \<Rightarrow>
                               if distance_to p (position (objs g r)) \<le> rad then [r] else [])
                     nearby_agent_ids))"

text \<open>The loop of \<open>update_physics\<close> that calls \<open>update_agent\<close> for every registered agent.\<close>

fun refresh_index :: "glob \<Rightarrow> (string \<times> ref) list \<Rightarrow> spatial_grid \<Rightarrow> spatial_grid" where
  "refresh_index g [] G = G"
| "refresh_index g ((i, r) # rest) G =
     refresh_index g rest (SpatialGrid_update_agent (objs g r) G)"

definition World_update_physics :: "real \<Rightarrow> world \<Rightarrow> glob \<Rightarrow> event list \<times> world \<times> glob" where
  "World_update_physics dt w g =
     (let G = refresh_index g (world_agents w) (spatial_grid w);
          (events, P, g') =
            PhysicsEngine_update (world_agents w) dt (physics w) (log_op OpGridRefresh g)
      in (events, w\<lparr>spatial_grid := G, physics := P\<rparr>, g'))"

definition regenerate :: "real \<Rightarrow> feature \<Rightarrow> feature" where
  "regenerate dt f =
     (if feature_type f = ''resource'' \<and> feat_active f then
        (let regen_rate = (case properties f ''regeneration_rate'' of None \<Rightarrow> 1 / 10 | Some v \<Rightarrow> v);
             max_energy = (case properties f ''max_energy_value'' of None \<Rightarrow> 100 | Some v \<Rightarrow> v);
             current_energy = (case properties f ''energy_value'' of None \<Rightarrow> 0 | Some v \<Rightarrow> v);
             new_energy = min max_energy (current_energy + regen_rate * dt)
         in f\<lparr>properties := (properties f)(''energy_value'' \<mapsto> new_energy)\<rparr>)
      else f)"

text \<open>
  The three weather blocks of \<open>update_environment\<close>, in source order; each draws
  \<open>random.random()\<close> and, when the draw is below its threshold, draws again to perturb.
\<close>

definition change_temperature :: "world \<Rightarrow> glob \<Rightarrow> world \<times> glob" where
  "change_temperature w g =
     (let (u, g) = random_random g
      in if u < 1 / 1000 then
           (let (d, g) = random_uniform (- 1) 1 g;
                w = w\<lparr>temperature := temperature w + d\<rparr>
            in (w\<lparr>temperature := max (- 20) (min 40 (temperature w))\<rparr>, g))
         else (w, g))"

definition change_humidity :: "world \<Rightarrow> glob \<Rightarrow> world \<times> glob" where
  "change_humidity w g =
     (let (u, g) = random_random g
      in if u < 1 / 1000 then
           (let (d, g) = random_uniform (- (5 / 100)) (5 / 100) g;
                w = w\<lparr>humidity := humidity w + d\<rparr>
            in (w\<lparr>humidity := max 0 (min 1 (humidity w))\<rparr>, g))
         else (w, g))"

definition change_wind :: "world \<Rightarrow> glob \<Rightarrow> world \<times> glob" where
  "change_wind w g =
     (let (u, g) = random_random g
      in if u < 1 / 100 then
           (let (d, g) = random_uniform (- (1 / 2)) (1 / 2) g;
                w = w\<lparr>wind_speed := max 0 (wind_speed w + d)\<rparr>;
                (d, g) = random_uniform (- (1 / 10)) (1 / 10) g;
                w = w\<lparr>wind_direction := wind_direction w + d\<rparr>;
                wind_x = wind_speed w * cos (wind_direction w);
                wind_y = wind_speed w * sin (wind_direction w)
            in (w\<lparr>physics := set_wind wind_x wind_y (physics w)\<rparr>, g))
         else (w, g))"

definition World_update_environment :: "real \<Rightarrow> world \<Rightarrow> glob \<Rightarrow> world \<times> glob" where
  "World_update_environment dt w g =
     (let g = log_op OpEnvironment g;
          w = w\<lparr>time := time w + dt\<rparr>;
          (w, g) = change_temperature w g;
          (w, g) = change_humidity w g;
          (w, g) = change_wind w g
      in (w\<lparr>features := map (regenerate dt) (features w)\<rparr>, g))"

definition World_update :: "real \<Rightarrow> world \<Rightarrow> glob \<Rightarrow> event list \<times> world \<times> glob" where
  "World_update dt w g =
     (let (w, g) = World_update_environment dt w g
      in World_update_physics dt w g)"

section \<open>Agent\<close>

record observation =
  obs_position :: Position
  obs_energy :: real
  obs_health :: real
  obs_age :: int
  nearby_agents :: "(string \<times> Position \<times> real) list"

text \<open>The base class's \<open>sense\<close>.\<close>

definition Agent_sense :: "ref \<Rightarrow> world \<Rightarrow> glob \<Rightarrow> observation" where
  "Agent_sense r w g =
     (let self = objs g r;
          nearby = get_agents_in_radius w g (position self) 50
      in \<lparr>obs_position = position self, obs_energy = energy self, obs_health = health self,
          obs_age = age self,
          nearby_agents =
            map (\<lambda>r'. (agent_id (objs g r'), position (objs g r'),
                        distance_to (position self) (position (objs g r'))))
              (filter (\<lambda>r'. agent_id (objs g r') \<noteq> agent_id self) nearby)\<rparr>)"

definition move :: "real \<Rightarrow> real \<Rightarrow> agent \<Rightarrow> agent" where
  "move dx dy a =
     a\<lparr>position := (fst (position a) + dx, snd (position a) + dy),
       velocity := (dx, dy), last_action := Some ''move''\<rparr>"

definition consume_energy :: "real \<Rightarrow> agent \<Rightarrow> agent" where
  "consume_energy amount a = a\<lparr>energy := max 0 (energy a - amount)\<rparr>"

definition add_memory :: "memory_item \<Rightarrow> agent \<Rightarrow> agent" where
  "add_memory m a =
     (let mem = memory a @ [m]
      in a\<lparr>memory := (if length mem > 1000 then drop (length mem - 1000) mem else mem)\<rparr>)"

definition handle_event :: "event \<Rightarrow> agent \<Rightarrow> agent" where
  "handle_event e a =
     (if target_id e = Some (agent_id a) \<or> target_id e = None then
        add_memory \<lparr>mi_type = ''event'', mi_event_type = ev_type e,
                    mi_source = source_id e, mi_data = data e\<rparr> a
      else a)"

definition is_alive :: "agent \<Rightarrow> bool" where
  "is_alive a \<longleftrightarrow> active a \<and> health a > 0 \<and> energy a > 0"

section \<open>EventManager\<close>

text \<open>The handlers the engine subscribes are agent objects.\<close>

record event_manager =
  handlers :: "event_type \<rightharpoonup> ref list"
  event_history :: "event list"
  max_history :: nat

definition EventManager_init :: event_manager where
  "EventManager_init = \<lparr>handlers = Map.empty, event_history = [], max_history = 10000\<rparr>"

definition subscribe :: "event_type \<Rightarrow> ref \<Rightarrow> event_manager \<Rightarrow> event_manager" where
  "subscribe t h em =
     em\<lparr>handlers := (handlers em)
          (t \<mapsto> (case handlers em t of None \<Rightarrow> [] | Some hs \<Rightarrow> hs) @ [h])\<rparr>"

definition unsubscribe :: "event_type \<Rightarrow> ref \<Rightarrow> event_manager \<Rightarrow> event_manager" where
  "unsubscribe t h em =
     (case handlers em t of
        None \<Rightarrow> em
      | Some hs \<Rightarrow> em\<lparr>handlers := (handlers em)(t \<mapsto> remove1 h hs)\<rparr>)"

definition publish :: "event \<Rightarrow> event_manager \<Rightarrow> glob \<Rightarrow> event_manager \<times> glob" where
  "publish e em g =
     (let hist = event_history em @ [e];
          hist = (if length hist > max_history em
                  then drop (length hist - max_history em) hist else hist)
      in (em\<lparr>event_history := hist\<rparr>,
          case handlers em (ev_type e) of
            None \<Rightarrow> g
          | Some hs \<Rightarrow> fold (\<lambda>h g. set_obj h (handle_event e (objs g h)) g) hs g))"

section \<open>SimulatorEngine\<close>

record config =
  time_step :: real
  max_steps :: int
  real_time :: bool
  enable_physics :: bool
  enable_visualization :: bool
  max_agents :: int
  cfg_world_width :: real
  cfg_world_height :: real
  random_seed :: "int option"

definition SimulationConfig :: config where
  "SimulationConfig =
     \<lparr>time_step = 1 / 10, max_steps = 1000, real_time = False, enable_physics = True,
      enable_visualization = False, max_agents = 1000,
      cfg_world_width = 1000, cfg_world_height = 1000, random_seed = None\<rparr>"

record engine =
  config :: config
  world :: world
  event_manager :: event_manager
  engine_agents :: "(string \<times> ref) list"
  running :: bool
  paused :: bool
  current_step :: int
  simulation_time :: real

text \<open>
  What the engine calls but does not define: the registered callbacks, and each agent
  class's \<open>sense\<close> (the base class's unless overridden) and abstract \<open>update\<close>. A raised
  exception is a value: a callback or \<open>sense\<close> returns \<open>Inl\<close>, and \<open>update\<close> returns the
  agent as it left it together with the exception, if any. The metrics collector and the
  logger are not modelled.
\<close>

type_synonym callback = "engine \<Rightarrow> glob \<Rightarrow> error + engine \<times> glob"

record hooks =
  cb_step_start :: "callback list"
  cb_step_end :: "callback list"

record behaviours =
  sense_m :: "ref \<Rightarrow> world \<Rightarrow> glob \<Rightarrow> error + observation"
  update_m :: "ref \<Rightarrow> real \<Rightarrow> observation \<Rightarrow> agent \<Rightarrow> error option \<times> agent"

definition SimulatorEngine_init :: "config \<Rightarrow> glob \<Rightarrow> engine \<times> glob" where
  "SimulatorEngine_init cfg g =
     (let (w, g) = World_init (cfg_world_width cfg) (cfg_world_height cfg) 50 g
      in (\<lparr>config = cfg, world = w, event_manager = EventManager_init, engine_agents = [],
           running = False, paused = False, current_step = 0, simulation_time = 0\<rparr>, g))"

text \<open>The first component of the result is the value \<open>add_agent\<close> returns: \<open>None\<close>.\<close>

definition add_agent :: "ref \<Rightarrow> engine \<Rightarrow> glob \<Rightarrow> unit \<times> engine \<times> glob" where
  "add_agent r eng g =
     (if int (length (engine_agents eng)) \<ge> max_agents (config eng) then ((), eng, g)
      else
        (let eng = eng\<lparr>engine_agents := AList.update (agent_id (objs g r)) r (engine_agents eng)\<rparr>;
             (w, g) = World_add_agent r (world eng) g;
             eng = eng\<lparr>world := w\<rparr>;
             eng = eng\<lparr>event_manager := subscribe AGENT_SPAWN r (event_manager eng)\<rparr>;
             eng = eng\<lparr>event_manager := subscribe ENVIRONMENT_CHANGE r (event_manager eng)\<rparr>;
             spawn_event = \<lparr>ev_type = AGENT_SPAWN, source_id = ''simulator'',
                            target_id = Some (agent_id (objs g r)), data = SpawnPosition r\<rparr>;
             (em, g) = publish spawn_event (event_manager eng) g
         in ((), eng\<lparr>event_manager := em\<rparr>, g)))"

definition remove_agent :: "string \<Rightarrow> engine \<Rightarrow> glob \<Rightarrow> engine \<times> glob" where
  "remove_agent i eng g =
     (case map_of (engine_agents eng) i of
        None \<Rightarrow> (eng, g)
      | Some r \<Rightarrow>
          (let eng = eng\<lparr>world := World_remove_agent r (world eng) g\<rparr>;
               death_event = \<lparr>ev_type = AGENT_DEATH, source_id = ''simulator'',
                              target_id = Some i, data = FinalPosition r\<rparr>;
               (em, g) = publish death_event (event_manager eng) g
           in (eng\<lparr>event_manager := em, engine_agents := AList.delete i (engine_agents eng)\<rparr>,
               log_op (OpRemove i) g)))"

fun run_callbacks :: "string \<Rightarrow> callback list \<Rightarrow> engine \<Rightarrow> glob \<Rightarrow> error + engine \<times> glob" where
  "run_callbacks name [] eng g = Inr (eng, g)"
| "run_callbacks name (cb # cbs) eng g =
     (case cb eng (log_op (OpCallback name) g) of
        Inl e \<Rightarrow> Inl e
      | Inr (eng', g') \<Rightarrow> run_callbacks name cbs eng' g')"

text \<open>
  The loop over \<open>self.agents.items()\<close>: the result is the list \<open>dead_agents\<close> and the
  store, or the exception that left the loop.
\<close>

fun update_agents ::
  "behaviours \<Rightarrow> real \<Rightarrow> world \<Rightarrow> (string \<times> ref) list \<Rightarrow> string list \<Rightarrow> glob
     \<Rightarrow> error + string list \<times> glob" where
  "update_agents B dt w [] dead_agents g = Inr (dead_agents, g)"
| "update_agents B dt w ((i, r) # rest) dead_agents g =
     (if \<not> is_alive (objs g r) then update_agents B dt w rest (dead_agents @ [i]) g
      else
        (case sense_m B r w (log_op (OpSense r) g) of
           Inl e \<Rightarrow> Inl e
         | Inr observations \<Rightarrow>
             (let g = log_op (OpUpdate r) (log_op (OpSense r) g)
              in case update_m B r dt observations (objs g r) of
                   (None, a) \<Rightarrow>
                     (let a = a\<lparr>age := age a + 1\<rparr>;
                          a = consume_energy (1 / 10) a
                      in update_agents B dt w rest dead_agents (set_obj r a g))
                 | (Some e, a) \<Rightarrow>
                     update_agents B dt w rest (dead_agents @ [i])
                       (log_op (OpUpdateFailed r) (set_obj r a g)))))"

text \<open>
  The body of \<open>step\<close> between the \<open>step_start\<close> and the \<open>step_end\<close> callbacks: the
  physics pass under \<open>enable_physics\<close> (\<open>physics_phase\<close>), the agent loop, the removals,
  \<open>World.update\<close> and the counters. The events \<open>World.update_physics\<close> and \<open>World.update\<close> return are dropped,
  as in the source.
\<close>

definition physics_phase :: "engine \<Rightarrow> glob \<Rightarrow> engine \<times> glob" where
  "physics_phase eng g =
     (if enable_physics (config eng) then
        (let (events, w, g) = World_update_physics (time_step (config eng)) (world eng) g
         in (eng\<lparr>world := w\<rparr>, g))
      else (eng, g))"

definition step_core :: "behaviours \<Rightarrow> engine \<Rightarrow> glob \<Rightarrow> error + engine \<times> glob" where
  "step_core B eng g =
     (let (eng, g) = physics_phase eng g
      in case update_agents B (time_step (config eng)) (world eng) (engine_agents eng) [] g of
           Inl e \<Rightarrow> Inl e
         | Inr (dead_agents, g) \<Rightarrow>
             (let (eng, g) = fold (\<lambda>i (eng, g). remove_agent i eng g) dead_agents (eng, g);
                  (events, w, g) = World_update (time_step (config eng)) (world eng) g;
                  eng = eng\<lparr>world := w\<rparr>;
                  eng = eng\<lparr>current_step := current_step eng + 1\<rparr>;
                  eng = eng\<lparr>simulation_time := simulation_time eng + time_step (config eng)\<rparr>
              in Inr (eng, g)))"

definition step :: "hooks \<Rightarrow> behaviours \<Rightarrow> engine \<Rightarrow> glob \<Rightarrow> error + engine \<times> glob" where
  "step H B eng g =
     (if paused eng then Inr (eng, g)
      else
        case run_callbacks ''step_start'' (cb_step_start H) eng g of
          Inl e \<Rightarrow> Inl e
        | Inr (eng, g) \<Rightarrow>
            (case step_core B eng g of
               Inl e \<Rightarrow> Inl e
             | Inr (eng, g) \<Rightarrow> run_callbacks ''step_end'' (cb_step_end H) eng g))"

section \<open>Concrete scenarios\<close>

definition mk_agent :: "string \<Rightarrow> Position \<Rightarrow> real \<times> real \<Rightarrow> agent" where
  "mk_agent i p v =
     \<lparr>agent_id = i, position = p, velocity = v, energy = 100, health = 100, age = 0,
      active = True, last_action = None, memory = []\<rparr>"

definition mk_glob :: "(ref \<Rightarrow> agent) \<Rightarrow> (nat \<Rightarrow> real) \<Rightarrow> glob" where
  "mk_glob h d = \<lparr>objs = h, rnd = d, rnd_pos = 0, trace = []\<rparr>"

text \<open>Two agents one unit apart, the first on the left edge of the world.\<close>

definition edge_pair :: "ref \<Rightarrow> agent" where
  "edge_pair = (\<lambda>_. mk_agent ''b'' (1, 50) (0, 0))(0 := mk_agent ''a'' (0, 50) (0, 0))"



text \<open>
  A 100 by 100 world with cell size 50 and two registered agents: \<open>a\<close> at (49, 50)
  moving right with velocity (20, 0), and \<open>b\<close> at rest at (80, 80). Every other object
  of the store is an unregistered agent \<open>c\<close>.
\<close>

definition demo_objs :: "ref \<Rightarrow> agent" where
  "demo_objs =
     (\<lambda>_. mk_agent ''c'' (10, 10) (0, 0))
       (0 := mk_agent ''a'' (49, 50) (20, 0), 1 := mk_agent ''b'' (80, 80) (0, 0))"

definition demo_glob :: glob where
  "demo_glob = mk_glob demo_objs (\<lambda>_. 1 / 2)"

definition demo_grid :: spatial_grid where
  "demo_grid =
     \<lparr>grid_width = 100, grid_height = 100, cell_size = 50, cols = 2, rows = 2,
      grid = (\<lambda>_. [])((0, 1) := [''a''], (1, 1) := [''b'']),
      agent_positions = [''a'' \<mapsto> (0, 1), ''b'' \<mapsto> (1, 1)]\<rparr>"

definition demo_world :: world where
  "demo_world =
     \<lparr>width = 100, height = 100, spatial_grid = demo_grid,
      physics = PhysicsEngine_init 100 100,
      world_agents = [(''a'', 0), (''b'', 1)], features = [],
      time = 0, temperature = 20, humidity = 1 / 2, wind_speed = 0, wind_direction = 0,
      total_agents_created = 2, total_agents_removed = 0\<rparr>"


definition ids_ok :: "(string \<times> ref) list \<Rightarrow> glob \<Rightarrow> bool" where
  "ids_ok agents g \<longleftrightarrow>
     distinct (map fst agents) \<and> list_all (\<lambda>(i, r). agent_id (objs g r) = i) agents"

text \<open>
  Preconditions of the zero-step property: every registered agent inside the world, and
  no two distinct registered agents closer than twice the collision radius.
  \<open>same_params\<close> relates physics engines that differ only in forces and wind;
  \<open>damped\<close> is an agent after friction alone.
\<close>

definition in_bounds :: "physics \<Rightarrow> (string \<times> ref) list \<Rightarrow> glob \<Rightarrow> bool" where
  "in_bounds P agents g \<longleftrightarrow>
     list_all (\<lambda>(i, r). 0 \<le> fst (position (objs g r)) \<and> fst (position (objs g r)) \<le> world_width P \<and>
                        0 \<le> snd (position (objs g r)) \<and> snd (position (objs g r)) \<le> world_height P)
       agents"

definition no_contact :: "physics \<Rightarrow> (string \<times> ref) list \<Rightarrow> glob \<Rightarrow> bool" where
  "no_contact P agents g \<longleftrightarrow>
     list_all (\<lambda>(i, r). list_all (\<lambda>(j, q). r = q \<or>
         \<not> distance_to (position (objs g r)) (position (objs g q)) < collision_radius P * 2) agents)
       agents"

definition same_params :: "physics \<Rightarrow> physics \<Rightarrow> bool" where
  "same_params P P' \<longleftrightarrow>
     world_width P' = world_width P \<and> world_height P' = world_height P \<and>
     friction P' = friction P \<and> bounce_damping P' = bounce_damping P \<and>
     collision_radius P' = collision_radius P"

definition damped :: "physics \<Rightarrow> agent \<Rightarrow> agent" where
  "damped P a = a\<lparr>velocity := (fst (velocity a) * friction P, snd (velocity a) * friction P)\<rparr>"

text \<open>The pair on the left edge, with the generator that never triggers a weather change.\<close>

definition pair_glob :: glob where
  "pair_glob = mk_glob edge_pair (\<lambda>_. 1 / 2)"



text \<open>
  Callbacks and agent classes for the scenarios: no callbacks, callbacks that return, a
  \<open>step_start\<close> callback that raises; agents whose \<open>update\<close> does nothing, agents of which
  the first raises in \<open>update\<close>, and agents whose overridden \<open>sense\<close> raises. The demo
  engine holds the demo world and its two agents, with \<open>max_agents = 2\<close>.
\<close>

definition no_hooks :: hooks where
  "no_hooks = \<lparr>cb_step_start = [], cb_step_end = []\<rparr>"



definition idle_behaviours :: behaviours where
  "idle_behaviours =
     \<lparr>sense_m = (\<lambda>r w g. Inr (Agent_sense r w g)), update_m = (\<lambda>r dt obs a. (None, a))\<rparr>"



definition demo_config :: config where
  "demo_config =
     SimulationConfig\<lparr>max_agents := 2, cfg_world_width := 100, cfg_world_height := 100,
                       random_seed := Some 42\<rparr>"

definition demo_engine :: engine where
  "demo_engine =
     \<lparr>config = demo_config, world = demo_world,
      event_manager = EventManager_init\<lparr>handlers := [AGENT_SPAWN \<mapsto> [0, 1],
                                                     ENVIRONMENT_CHANGE \<mapsto> [0, 1]]\<rparr>,
      engine_agents = [(''a'', 0), (''b'', 1)],
      running = False, paused = False, current_step = 0, simulation_time = 0\<rparr>"

text \<open>The same engine with room for more agents.\<close>

definition roomy_engine :: engine where
  "roomy_engine = demo_engine\<lparr>config := demo_config\<lparr>max_agents := 1000\<rparr>\<rparr>"

text \<open>The memory entry \<open>Agent.handle_event\<close> records for an event.\<close>

definition event_item :: "event \<Rightarrow> memory_item" where
  "event_item e =
     \<lparr>mi_type = ''event'', mi_event_type = ev_type e, mi_source = source_id e, mi_data = data e\<rparr>"

text \<open>An agent object is added to the engine and then removed by its id.\<close>

definition add_then_remove :: "ref \<Rightarrow> engine \<Rightarrow> glob \<Rightarrow> engine \<times> glob" where
  "add_then_remove r eng g =
     (let (u, eng1, g1) = add_agent r eng g
      in remove_agent (agent_id (objs g1 r)) eng1 g1)"

text \<open>A broadcast event of type \<open>ENVIRONMENT_CHANGE\<close>.\<close>

definition weather_event :: event where
  "weather_event =
     \<lparr>ev_type = ENVIRONMENT_CHANGE, source_id = ''world'', target_id = None, data = NoData\<rparr>"

text \<open>One iteration of the handler loop of \<open>EventManager.publish\<close>.\<close>

definition deliver :: "event \<Rightarrow> ref \<Rightarrow> glob \<Rightarrow> glob" where
  "deliver e h g = set_obj h (handle_event e (objs g h)) g"

text \<open>
  A second sequence of draws of the global generator: the third draw is below the 1% threshold
  of the wind change, the fourth makes \<open>uniform(-0.5, 0.5)\<close> return 0.25, the fifth makes
  \<open>uniform(-0.1, 0.1)\<close> return 0.
\<close>

definition windy_draws :: "nat \<Rightarrow> real" where
  "windy_draws n = (if n = 2 then 0 else if n = 3 then 3 / 4 else 1 / 2)"

text \<open>The demo agents with the second sequence of draws.\<close>

definition windy_glob :: glob where
  "windy_glob = mk_glob demo_objs windy_draws"

text \<open>The demo objects after the physics pass that opens \<open>step\<close>, and after the agent loop.\<close>

definition after_physics :: "(nat \<Rightarrow> real) \<Rightarrow> glob" where
  "after_physics d =
     \<lparr>objs = demo_objs(0 := (mk_agent ''a'' (509 / 10, 50) (19, 0)),
                         1 := (mk_agent ''b'' (80, 80) (0, 0))),
      rnd = d, rnd_pos = 0, trace = [OpGridRefresh, OpPhysics]\<rparr>"

definition after_agents :: "(nat \<Rightarrow> real) \<Rightarrow> glob" where
  "after_agents d =
     \<lparr>objs = demo_objs(0 := (mk_agent ''a'' (509 / 10, 50) (19, 0))\<lparr>age := 1, energy := 999 / 10\<rparr>,
                         1 := (mk_agent ''b'' (80, 80) (0, 0))\<lparr>age := 1, energy := 999 / 10\<rparr>),
      rnd = d, rnd_pos = 0,
      trace = [OpGridRefresh, OpPhysics, OpSense 0, OpUpdate 0, OpSense 1, OpUpdate 1]\<rparr>"

section \<open>Properties\<close>

lemmas phys_defs = PhysicsEngine_update_def physics_update_agent_def handle_boundaries_def
  calculate_total_forces_def cleanup_forces_def check_agent_collisions_def PhysicsEngine_init_def
  set_obj_def log_op_def mk_agent_def mk_glob_def resolve_collision_def distance_to_def

subsection \<open>Boundary reflection scenario\<close>

text \<open>
  C7. In a 100 by 100 world with the default physics parameters, no forces, gravity and
  wind zero, one agent at (95, 50) with velocity (10, 0) is, after one physics update
  with \<open>dt = 1\<close>, at x = 100 exactly, with velocity x-component \<open>- 7\<close>: the stored
  velocity reflected and scaled by the bounce damping 0.7, hence strictly negative.
\<close>

theorem boundary_scenario:
  "(case PhysicsEngine_update [(''a'', 0)] 1 (PhysicsEngine_init 100 100)
           (mk_glob (\<lambda>_. mk_agent ''a'' (95, 50) (10, 0)) (\<lambda>_. 1 / 2)) of
      (evs, P, g) \<Rightarrow>
        position (objs g 0) = (100, 50) \<and>
        fst (velocity (objs g 0)) = - 10 * bounce_damping P \<and>
        bounce_damping P < 1 \<and>
        fst (velocity (objs g 0)) < 0)"
  by (simp add: phys_defs Let_def)

subsection \<open>Positions after the physics pass\<close>

text \<open>
  C3. The claim is that after \<open>PhysicsEngine.update\<close> every position lies in
  \<open>[0, W] \<times> [0, H]\<close>. Boundary handling clamps, but the pairwise collision resolution
  that follows separates overlapping agents without clamping: in a 100 by 100 world, two
  resting agents at (0, 50) and (1, 50) end at x = -3/2 and x = 5/2.
\<close>

theorem collision_pushes_out_of_bounds:
  "(case PhysicsEngine_update [(''a'', 0), (''b'', 1)] (1 / 10) (PhysicsEngine_init 100 100)
           (mk_glob edge_pair (\<lambda>_. 1 / 2)) of
      (evs, P, g) \<Rightarrow>
        position (objs g 0) = (- (3 / 2), 50) \<and> position (objs g 1) = (5 / 2, 50) \<and>
        \<not> (0 \<le> fst (position (objs g 0))))"
  by (simp add: phys_defs edge_pair_def Let_def)

subsection \<open>Radius queries\<close>












lemma demo_cc:
  "get_cell_coords demo_grid (49, 50) = (0, 1)" "get_cell_coords demo_grid (80, 80) = (1, 1)"
  by (simp_all add: get_cell_coords_def demo_grid_def py_int_def)





subsection \<open>The index after a tick\<close>

lemma distance_to_less_iff:
  "0 \<le> d \<Longrightarrow> distance_to p q < d \<longleftrightarrow> (fst p - fst q)\<^sup>2 + (snd p - snd q)\<^sup>2 < d\<^sup>2"
  unfolding distance_to_def
  by (metis real_sqrt_less_iff real_sqrt_abs abs_of_nonneg)

lemma get_cell_coords_cong:
  "cell_size G' = cell_size G \<Longrightarrow> cols G' = cols G \<Longrightarrow> rows G' = rows G \<Longrightarrow>
   get_cell_coords G' p = get_cell_coords G p"
  by (simp add: get_cell_coords_def)

lemma update_agent_fields:
  "cell_size (SpatialGrid_update_agent a G) = cell_size G"
  "cols (SpatialGrid_update_agent a G) = cols G"
  "rows (SpatialGrid_update_agent a G) = rows G"
  by (simp_all add: SpatialGrid_update_agent_def SpatialGrid_add_agent_def Let_def
        split: option.splits)


lemma set_set_add [simp]: "set (set_add i xs) = insert i (set xs)"
  by (auto simp: set_add_def)

lemma set_set_discard [simp]: "set (set_discard i xs) = set xs - {i}"
  by (simp add: set_discard_def)



lemma refresh_fields:
  "cell_size (refresh_index g xs G) = cell_size G \<and>
   cols (refresh_index g xs G) = cols G \<and>
   rows (refresh_index g xs G) = rows G"
  by (induction g xs G rule: refresh_index.induct) (simp_all add: update_agent_fields)



lemma get_cell_coords_update_agent [simp]:
  "get_cell_coords (SpatialGrid_update_agent a G) p = get_cell_coords G p"
  by (rule get_cell_coords_cong) (simp_all add: update_agent_fields)

lemma get_cell_coords_refresh [simp]:
  "get_cell_coords (refresh_index g xs G) p = get_cell_coords G p"
  by (rule get_cell_coords_cong) (simp_all add: refresh_fields)



lemma refresh_index_objs: "objs g' = objs g \<Longrightarrow> refresh_index g' xs G = refresh_index g xs G"
  by (induction g xs G rule: refresh_index.induct) simp_all

lemmas rnd_defs = random_random_def random_uniform_def

lemma change_temperature_frame:
  "spatial_grid (fst (change_temperature w g)) = spatial_grid w"
  "world_agents (fst (change_temperature w g)) = world_agents w"
  "objs (snd (change_temperature w g)) = objs g"
  by (simp_all add: change_temperature_def rnd_defs Let_def split_beta)

lemma change_humidity_frame:
  "spatial_grid (fst (change_humidity w g)) = spatial_grid w"
  "world_agents (fst (change_humidity w g)) = world_agents w"
  "objs (snd (change_humidity w g)) = objs g"
  by (simp_all add: change_humidity_def rnd_defs Let_def split_beta)

lemma change_wind_frame:
  "spatial_grid (fst (change_wind w g)) = spatial_grid w"
  "world_agents (fst (change_wind w g)) = world_agents w"
  "objs (snd (change_wind w g)) = objs g"
  by (simp_all add: change_wind_def rnd_defs Let_def split_beta)

lemmas weather_frame = change_temperature_frame change_humidity_frame change_wind_frame

lemma env_frame:
  "spatial_grid (fst (World_update_environment dt w g)) = spatial_grid w"
  "world_agents (fst (World_update_environment dt w g)) = world_agents w"
  "objs (snd (World_update_environment dt w g)) = objs g"
  by (simp_all add: World_update_environment_def Let_def split_beta weather_frame log_op_def)




lemma demo_ids_ok: "ids_ok (world_agents demo_world) demo_glob"
  by (simp add: ids_ok_def demo_world_def demo_glob_def mk_glob_def demo_objs_def mk_agent_def)

lemma demo_env:
  "World_update_environment dt demo_world demo_glob =
     (demo_world\<lparr>time := dt\<rparr>, demo_glob\<lparr>rnd_pos := 3, trace := [OpEnvironment]\<rparr>)"
  by (simp add: World_update_environment_def change_temperature_def change_humidity_def
        change_wind_def rnd_defs log_op_def demo_world_def demo_glob_def mk_glob_def Let_def)

lemma demo_refresh:
  "refresh_index demo_glob [(''a'', 0), (''b'', 1)] demo_grid = demo_grid"
proof -
  have a: "agent_positions demo_grid ''a'' = Some (0, 1)" "agent_positions demo_grid ''b'' = Some (1, 1)"
    by (simp_all add: demo_grid_def)
  have o: "objs demo_glob 0 = mk_agent ''a'' (49, 50) (20, 0)"
    "objs demo_glob 1 = mk_agent ''b'' (80, 80) (0, 0)"
    by (simp_all add: demo_glob_def mk_glob_def demo_objs_def)
  have "SpatialGrid_update_agent (mk_agent ''a'' (49, 50) (20, 0)) demo_grid = demo_grid"
    by (simp add: SpatialGrid_update_agent_def mk_agent_def demo_cc a)
  moreover have "SpatialGrid_update_agent (mk_agent ''b'' (80, 80) (0, 0)) demo_grid = demo_grid"
    by (simp add: SpatialGrid_update_agent_def mk_agent_def demo_cc a)
  ultimately show ?thesis using o by simp
qed

lemmas phys_eval = PhysicsEngine_update_def physics_update_agent_def handle_boundaries_def
  calculate_total_forces_def cleanup_forces_def check_agent_collisions_def PhysicsEngine_init_def
  set_obj_def log_op_def mk_agent_def mk_glob_def distance_to_less_iff power2_eq_square





subsection \<open>A tick of zero duration\<close>

lemma objs_set_obj [simp]: "objs (set_obj r a g) q = (if q = r then a else objs g q)"
  by (simp add: set_obj_def)

lemma objs_log_op [simp]: "objs (log_op x g) = objs g"
  by (simp add: log_op_def)

lemma handle_boundaries_energy [simp]:
  "energy (fst (handle_boundaries P a x y)) = energy a"
  by (simp add: handle_boundaries_def Let_def split_beta)

lemma physics_update_agent_energy:
  "energy (objs (snd (snd (physics_update_agent dt x s))) q) = energy (objs (snd (snd s)) q)"
  by (cases x; cases s)
     (simp add: physics_update_agent_def Let_def split_beta split: option.splits)

lemma fold_physics_energy:
  "energy (objs (snd (snd (fold (physics_update_agent dt) xs s))) q) = energy (objs (snd (snd s)) q)"
  by (induction xs arbitrary: s) (simp_all add: physics_update_agent_energy)

lemma resolve_collision_energy:
  "energy (objs (resolve_collision P r1 r2 g) q) = energy (objs g q)"
  by (simp add: resolve_collision_def Let_def split_beta)

lemma collide_with_energy:
  "energy (objs (snd (collide_with P r1 rest st)) q) = energy (objs (snd st) q)"
  by (induction P r1 rest st rule: collide_with.induct)
     (simp_all add: Let_def resolve_collision_energy)

lemma collisions_loop_energy:
  "energy (objs (snd (check_agent_collisions_loop P rs st)) q) = energy (objs (snd st) q)"
  by (induction P rs st rule: check_agent_collisions_loop.induct)
     (simp_all add: collide_with_energy)

lemma PhysicsEngine_update_energy:
  "energy (objs (snd (snd (PhysicsEngine_update agents dt P g))) q) = energy (objs g q)"
  by (simp add: PhysicsEngine_update_def check_agent_collisions_def split_beta
        collisions_loop_energy fold_physics_energy)

lemma World_update_energy:
  "energy (objs (snd (snd (World_update dt w g))) q) = energy (objs g q)"
  by (simp add: World_update_def World_update_physics_def split_beta Let_def
        PhysicsEngine_update_energy env_frame)

lemma same_params_refl [simp]: "same_params P P"
  by (simp add: same_params_def)

lemma same_params_cleanup [simp]: "same_params P (cleanup_forces i P)"
  by (simp add: same_params_def cleanup_forces_def split: option.splits)

lemma same_params_trans: "same_params P P' \<Longrightarrow> same_params P' P'' \<Longrightarrow> same_params P P''"
  by (simp add: same_params_def)

lemma physics_update_agent_dt0:
  assumes "0 \<le> fst (position (objs g r))" "fst (position (objs g r)) \<le> world_width P"
    "0 \<le> snd (position (objs g r))" "snd (position (objs g r)) \<le> world_height P"
  shows "physics_update_agent 0 (i, r) (ev, P, g) =
           (ev, cleanup_forces i P, set_obj r (damped P (objs g r)) g)"
  using assms
  by (simp add: physics_update_agent_def handle_boundaries_def damped_def Let_def split_beta
        not_less)

lemma fold_physics_dt0:
  assumes "distinct (map snd xs)"
    and "list_all (\<lambda>(i, r). 0 \<le> fst (position (objs g r)) \<and> fst (position (objs g r)) \<le> world_width P \<and>
                        0 \<le> snd (position (objs g r)) \<and> snd (position (objs g r)) \<le> world_height P) xs"
  shows "\<exists>P' g'. fold (physics_update_agent 0) xs (ev, P, g) = (ev, P', g') \<and> same_params P P' \<and>
           (\<forall>q. objs g' q = (if q \<in> snd ` set xs then damped P (objs g q) else objs g q))"
  using assms
proof (induction xs arbitrary: P g)
  case Nil
  then show ?case by simp
next
  case (Cons x xs)
  obtain i r where x: "x = (i, r)" by (cases x)
  let ?P = "cleanup_forces i P" and ?g = "set_obj r (damped P (objs g r)) g"
  from Cons.prems have step: "physics_update_agent 0 (i, r) (ev, P, g) = (ev, ?P, ?g)"
    by (intro physics_update_agent_dt0) (simp_all add: x)
  from Cons.prems have r: "r \<notin> snd ` set xs" and d: "distinct (map snd xs)"
    by (auto simp: x)
  have sp: "same_params P ?P" by simp
  then have wh: "world_width ?P = world_width P" "world_height ?P = world_height P"
    "friction ?P = friction P"
    by (simp_all add: same_params_def)
  have b: "list_all (\<lambda>(i, r). 0 \<le> fst (position (objs ?g r)) \<and> fst (position (objs ?g r)) \<le> world_width ?P \<and>
                        0 \<le> snd (position (objs ?g r)) \<and> snd (position (objs ?g r)) \<le> world_height ?P) xs"
    using Cons.prems(2) r unfolding list_all_iff wh x by force
  from Cons.IH[OF d b] obtain P' g' where
    f: "fold (physics_update_agent 0) xs (ev, ?P, ?g) = (ev, P', g')" and sp': "same_params ?P P'"
    and o: "\<And>q. objs g' q = (if q \<in> snd ` set xs then damped ?P (objs ?g q) else objs ?g q)"
    by blast
  have dm: "\<And>a. damped ?P a = damped P a" by (simp add: damped_def wh)
  have "fold (physics_update_agent 0) (x # xs) (ev, P, g) = (ev, P', g')"
    by (simp add: x step f)
  moreover have "same_params P P'" by (rule same_params_trans[OF sp sp'])
  moreover have "\<forall>q. objs g' q = (if q \<in> snd ` set (x # xs) then damped P (objs g q) else objs g q)"
    using r by (auto simp: o dm x)
  ultimately show ?case by blast
qed

lemma collide_with_no_contact:
  "\<forall>r2 \<in> set rest. \<not> distance_to (position (objs g r1)) (position (objs g r2)) < collision_radius P * 2
   \<Longrightarrow> collide_with P r1 rest (ev, g) = (ev, g)"
  by (induction rest) simp_all

lemma collisions_loop_no_contact:
  "distinct rs \<Longrightarrow>
   \<forall>r1 \<in> set rs. \<forall>r2 \<in> set rs. r1 = r2 \<or>
      \<not> distance_to (position (objs g r1)) (position (objs g r2)) < collision_radius P * 2
   \<Longrightarrow> check_agent_collisions_loop P rs (ev, g) = (ev, g)"
proof (induction rs)
  case Nil
  then show ?case by simp
next
  case (Cons r1 rest)
  from Cons.prems have "collide_with P r1 rest (ev, g) = (ev, g)"
    by (intro collide_with_no_contact) auto
  with Cons show ?case by simp
qed

lemma ids_ok_distinct_refs:
  assumes "ids_ok xs g"
  shows "distinct (map snd xs)"
proof -
  from assms have d: "distinct (map fst xs)"
    and k: "\<And>x. x \<in> set xs \<Longrightarrow> agent_id (objs g (snd x)) = fst x"
    by (auto simp: ids_ok_def list_all_iff)
  from d have dx: "distinct xs" and inj: "inj_on fst (set xs)"
    by (simp_all add: distinct_map)
  have "inj_on snd (set xs)"
  proof (rule inj_onI)
    fix x y assume x: "x \<in> set xs" and y: "y \<in> set xs" and e: "snd x = snd y"
    from k[OF x] k[OF y] e have "fst x = fst y" by simp
    with e show "x = y" by (simp add: prod_eq_iff)
  qed
  with dx show ?thesis by (simp add: distinct_map)
qed

lemma position_damped [simp]: "position (damped P a) = position a"
  by (simp add: damped_def)

lemma PhysicsEngine_update_dt0:
  assumes dr: "distinct (map snd agents)"
    and ib: "in_bounds P agents g" and nc: "no_contact P agents g"
  shows "objs (snd (snd (PhysicsEngine_update agents 0 P g))) q =
           (if q \<in> snd ` set agents then damped P (objs g q) else objs g q)"
proof -
  from ib have ib': "list_all (\<lambda>(i, r). 0 \<le> fst (position (objs (log_op OpPhysics g) r)) \<and>
        fst (position (objs (log_op OpPhysics g) r)) \<le> world_width P \<and>
        0 \<le> snd (position (objs (log_op OpPhysics g) r)) \<and>
        snd (position (objs (log_op OpPhysics g) r)) \<le> world_height P) agents"
    by (simp add: in_bounds_def)
  from fold_physics_dt0[OF dr ib', of "[]"] obtain P' g1 where
    f: "fold (physics_update_agent 0) agents ([], P, log_op OpPhysics g) = ([], P', g1)"
    and sp: "same_params P P'"
    and o: "\<And>q. objs g1 q = (if q \<in> snd ` set agents then damped P (objs g q) else objs g q)"
    by auto
  have pos: "\<And>q. position (objs g1 q) = position (objs g q)" by (simp add: o)
  have cr: "collision_radius P' = collision_radius P" using sp by (simp add: same_params_def)
  have "\<forall>r1 \<in> set (map snd agents). \<forall>r2 \<in> set (map snd agents). r1 = r2 \<or>
      \<not> distance_to (position (objs g1 r1)) (position (objs g1 r2)) < collision_radius P' * 2"
    using nc unfolding no_contact_def list_all_iff pos cr by force
  from collisions_loop_no_contact[OF dr this, of "[]"]
  have "check_agent_collisions P' agents g1 = ([], g1)"
    by (simp add: check_agent_collisions_def)
  then show ?thesis
    by (simp add: PhysicsEngine_update_def f o)
qed

lemma weather_same_params:
  "same_params (physics w) (physics (fst (change_temperature w g)))"
  "same_params (physics w) (physics (fst (change_humidity w g)))"
  "same_params (physics w) (physics (fst (change_wind w g)))"
  by (simp_all add: change_temperature_def change_humidity_def change_wind_def rnd_defs
        Let_def split_beta same_params_def set_wind_def)

lemma env_same_params:
  "same_params (physics w) (physics (fst (World_update_environment dt w g)))"
proof -
  let ?w0 = "w\<lparr>time := time w + dt\<rparr>" and ?g0 = "log_op OpEnvironment g"
  let ?s1 = "change_temperature ?w0 ?g0"
  let ?s2 = "change_humidity (fst ?s1) (snd ?s1)"
  let ?s3 = "change_wind (fst ?s2) (snd ?s2)"
  have 0: "same_params (physics w) (physics ?w0)" by (simp add: same_params_def)
  have 1: "same_params (physics ?w0) (physics (fst ?s1))" by (rule weather_same_params)
  have 2: "same_params (physics (fst ?s1)) (physics (fst ?s2))" by (rule weather_same_params)
  have 3: "same_params (physics (fst ?s2)) (physics (fst ?s3))" by (rule weather_same_params)
  from same_params_trans[OF same_params_trans[OF same_params_trans[OF 0 1] 2] 3]
  show ?thesis
    by (simp add: World_update_environment_def Let_def split_beta)
qed


lemma zero_dt_registered:
  assumes ok: "ids_ok (world_agents w) g"
    and ib: "in_bounds (physics w) (world_agents w) g"
    and nc: "no_contact (physics w) (world_agents w) g"
    and mem: "(i, r) \<in> set (world_agents w)"
  shows "objs (snd (snd (World_update 0 w g))) r = damped (physics w) (objs g r)"
proof -
  let ?e = "World_update_environment 0 w g"
  let ?P = "physics (fst ?e)"
  have sp: "same_params (physics w) ?P" by (rule env_same_params)
  have ag: "world_agents (fst ?e) = world_agents w" and ob: "objs (snd ?e) = objs g"
    by (rule env_frame)+
  have dr: "distinct (map snd (world_agents w))" by (rule ids_ok_distinct_refs[OF ok])
  have ib': "in_bounds ?P (world_agents w) (log_op OpGridRefresh (snd ?e))"
    using ib sp by (simp add: in_bounds_def ob same_params_def)
  have nc': "no_contact ?P (world_agents w) (log_op OpGridRefresh (snd ?e))"
    using nc sp by (simp add: no_contact_def ob same_params_def)
  have r: "r \<in> snd ` set (world_agents w)" using mem by force
  have "objs (snd (snd (World_update 0 w g))) r = damped ?P (objs g r)"
    using PhysicsEngine_update_dt0[OF dr ib' nc', of r] r
    by (simp add: World_update_def World_update_physics_def split_beta Let_def ag ob)
  moreover have "friction ?P = friction (physics w)" using sp by (simp add: same_params_def)
  ultimately show ?thesis by (simp add: damped_def)
qed

text \<open>
  C4, as amended. \<open>World.update\<close> with \<open>dt = 0\<close> leaves every agent's energy
  unchanged. It leaves the position of a registered agent unchanged provided every
  registered agent is inside the world bounds and no two of them are closer than twice
  the collision radius; the velocity is then multiplied by the friction coefficient,
  which the physics pass applies once per call whatever \<open>dt\<close> is.
\<close>

theorem zero_dt_update:
  "energy (objs (snd (snd (World_update 0 w g))) q) = energy (objs g q) \<and>
   (ids_ok (world_agents w) g \<and> in_bounds (physics w) (world_agents w) g \<and>
    no_contact (physics w) (world_agents w) g \<and> (i, r) \<in> set (world_agents w) \<longrightarrow>
      position (objs (snd (snd (World_update 0 w g))) r) = position (objs g r) \<and>
      velocity (objs (snd (snd (World_update 0 w g))) r) =
        (fst (velocity (objs g r)) * friction (physics w),
         snd (velocity (objs g r)) * friction (physics w)))"
  using zero_dt_registered[of w g i r]
  by (simp add: World_update_energy damped_def)

lemma demo_env_any:
  "rnd g = (\<lambda>_. 1 / 2) \<Longrightarrow>
   World_update_environment dt demo_world g =
     (demo_world\<lparr>time := dt\<rparr>, g\<lparr>rnd_pos := rnd_pos g + 3, trace := trace g @ [OpEnvironment]\<rparr>)"
  by (simp add: World_update_environment_def change_temperature_def change_humidity_def
        change_wind_def rnd_defs log_op_def demo_world_def Let_def)

lemma demo_in_bounds: "in_bounds (physics demo_world) (world_agents demo_world) demo_glob"
  by (simp add: in_bounds_def demo_world_def demo_glob_def mk_glob_def demo_objs_def mk_agent_def
        PhysicsEngine_init_def)

lemma demo_no_contact: "no_contact (physics demo_world) (world_agents demo_world) demo_glob"
  by (simp add: no_contact_def demo_world_def demo_glob_def mk_glob_def demo_objs_def mk_agent_def
        PhysicsEngine_init_def distance_to_less_iff power2_eq_square)

theorem zero_dt_update_witness:
  "ids_ok (world_agents demo_world) demo_glob \<and>
   in_bounds (physics demo_world) (world_agents demo_world) demo_glob \<and>
   no_contact (physics demo_world) (world_agents demo_world) demo_glob \<and>
   (''a'', 0) \<in> set (world_agents demo_world) \<and>
   energy (objs (snd (snd (World_update 0 demo_world demo_glob))) 0) = 100 \<and>
   position (objs (snd (snd (World_update 0 demo_world demo_glob))) 0) = (49, 50) \<and>
   velocity (objs (snd (snd (World_update 0 demo_world demo_glob))) 0) = (19, 0)"
proof -
  have m: "(''a'', 0) \<in> set (world_agents demo_world)" by (simp add: demo_world_def)
  have o: "objs demo_glob 0 = mk_agent ''a'' (49, 50) (20, 0)"
    by (simp add: demo_glob_def mk_glob_def demo_objs_def)
  have f: "friction (physics demo_world) = 19 / 20"
    by (simp add: demo_world_def PhysicsEngine_init_def)
  from zero_dt_update[of demo_world demo_glob 0 "''a''" 0]
    demo_ids_ok demo_in_bounds demo_no_contact m
  show ?thesis by (simp add: o f mk_agent_def)
qed

text \<open>
  C4, as stated, fails: with \<open>dt = 0\<close> the velocity (20, 0) of agent \<open>a\<close> in the demo world
  becomes (19, 0), and in the same world with two resting agents one unit apart the
  collision resolution moves the first from x = 0 to x = -3/2.
\<close>

theorem zero_dt_changes_state:
  "velocity (objs demo_glob 0) = (20, 0) \<and>
   velocity (objs (snd (snd (World_update 0 demo_world demo_glob))) 0) = (19, 0) \<and>
   position (objs pair_glob 0) = (0, 50) \<and>
   position (objs (snd (snd (World_update 0 demo_world pair_glob))) 0) = (- (3 / 2), 50)"
proof -
  have 1: "velocity (objs demo_glob 0) = (20, 0)"
    by (simp add: demo_glob_def mk_glob_def demo_objs_def mk_agent_def)
  have 2: "velocity (objs (snd (snd (World_update 0 demo_world demo_glob))) 0) = (19, 0)"
    by (simp add: World_update_def demo_env World_update_physics_def split_beta)
       (simp add: demo_world_def phys_eval demo_glob_def demo_objs_def Let_def)
  have 3: "position (objs pair_glob 0) = (0, 50)"
    by (simp add: pair_glob_def mk_glob_def edge_pair_def mk_agent_def)
  have r: "rnd pair_glob = (\<lambda>_. 1 / 2)" by (simp add: pair_glob_def mk_glob_def)
  have 4: "position (objs (snd (snd (World_update 0 demo_world pair_glob))) 0) = (- (3 / 2), 50)"
    by (simp add: World_update_def demo_env_any[OF r] World_update_physics_def split_beta)
       (simp add: demo_world_def phys_eval resolve_collision_def pair_glob_def edge_pair_def Let_def)
  from 1 2 3 4 show ?thesis by blast
qed

subsection \<open>The tick pipeline\<close>

lemma trace_set_obj [simp]: "trace (set_obj r a g) = trace g"
  by (simp add: set_obj_def)

lemma trace_log_op [simp]: "trace (log_op x g) = trace g @ [x]"
  by (simp add: log_op_def)













lemma remove_agent_config [simp]: "config (fst (remove_agent i eng g)) = config eng"
  by (simp add: remove_agent_def Let_def split_beta split: option.splits)







lemma remove_agent_keys:
  "fst ` set (engine_agents (fst (remove_agent i eng g))) = fst ` set (engine_agents eng) - {i}"
proof (cases "map_of (engine_agents eng) i")
  case None
  then have "i \<notin> fst ` set (engine_agents eng)" by (simp add: map_of_eq_None_iff)
  with None show ?thesis by (simp add: remove_agent_def)
next
  case (Some r)
  have "set (map fst (AList.delete i (engine_agents eng))) = set (map fst (engine_agents eng)) - {i}"
    by (simp only: delete_keys set_removeAll)
  with Some show ?thesis
    by (simp add: remove_agent_def Let_def split_beta)
qed

























subsection \<open>Adding an agent at capacity\<close>

lemma add_agent_registry:
  "int (length (engine_agents eng)) < max_agents (config eng) \<Longrightarrow>
   engine_agents (fst (snd (add_agent r eng g))) =
     AList.update (agent_id (objs g r)) r (engine_agents eng)"
  by (simp add: add_agent_def Let_def split_beta)

text \<open>
  C8, as amended. When the registry already holds \<open>max_agents\<close> agents,
  \<open>SimulatorEngine.add_agent\<close> raises nothing and leaves the engine (registry, world, handler
  lists, event history) and every agent object unchanged; the value it returns is \<open>None\<close>.
\<close>

theorem add_agent_at_capacity:
  "max_agents (config eng) \<le> int (length (engine_agents eng)) \<Longrightarrow>
   add_agent r eng g = ((), eng, g)"
  by (simp add: add_agent_def)

theorem add_agent_at_capacity_witness:
  "max_agents (config demo_engine) \<le> int (length (engine_agents demo_engine)) \<and>
   add_agent 2 demo_engine demo_glob = ((), demo_engine, demo_glob)"
proof -
  have h: "max_agents (config demo_engine) \<le> int (length (engine_agents demo_engine))"
    by (simp add: demo_engine_def demo_config_def)
  from add_agent_at_capacity[OF h, of 2 demo_glob] h show ?thesis by simp
qed

text \<open>
  C8, as stated, fails for the return status: at capacity the call on
  the demo engine changes nothing, with room it registers the third agent, and both calls return
  the same value, so the return value does not tell a rejected call from an accepted one.
\<close>

theorem add_agent_returns_no_status:
  "snd (add_agent 2 demo_engine demo_glob) = (demo_engine, demo_glob) \<and>
   length (engine_agents (fst (snd (add_agent 2 roomy_engine demo_glob)))) = 3 \<and>
   fst (add_agent 2 demo_engine demo_glob) = fst (add_agent 2 roomy_engine demo_glob)"
proof -
  have 1: "snd (add_agent 2 demo_engine demo_glob) = (demo_engine, demo_glob)"
    by (simp add: add_agent_def demo_engine_def demo_config_def)
  have a: "int (length (engine_agents roomy_engine)) < max_agents (config roomy_engine)"
    by (simp add: roomy_engine_def demo_engine_def demo_config_def)
  have "agent_id (objs demo_glob 2) = ''c''"
    by (simp add: demo_glob_def mk_glob_def demo_objs_def mk_agent_def)
  then have 2: "length (engine_agents (fst (snd (add_agent 2 roomy_engine demo_glob)))) = 3"
    by (simp add: add_agent_registry[OF a]) (simp add: roomy_engine_def demo_engine_def)
  from 1 2 show ?thesis by simp
qed

subsection \<open>Subscriptions of removed agents\<close>

lemma add_memory_last: "memory (add_memory m a) \<noteq> [] \<and> last (memory (add_memory m a)) = m"
  by (simp add: add_memory_def Let_def)

lemma add_memory_agent_id [simp]: "agent_id (add_memory m a) = agent_id a"
  by (simp add: add_memory_def Let_def)

lemma handle_event_agent_id [simp]: "agent_id (handle_event e a) = agent_id a"
  by (simp add: handle_event_def)

lemma handle_event_delivers:
  "target_id e = None \<or> target_id e = Some (agent_id a) \<Longrightarrow>
   memory (handle_event e a) \<noteq> [] \<and> last (memory (handle_event e a)) = event_item e"
  using add_memory_last[of "event_item e" a]
  by (auto simp: handle_event_def event_item_def)

lemma deliver_agent_id [simp]: "agent_id (objs (deliver e h g) q) = agent_id (objs g q)"
  by (simp add: deliver_def)

lemma fold_deliver_agent_id [simp]:
  "agent_id (objs (fold (deliver e) hs g) q) = agent_id (objs g q)"
  by (induction hs arbitrary: g) simp_all

lemma fold_deliver_keeps:
  "target_id e = None \<or> target_id e = Some (agent_id (objs g r)) \<Longrightarrow>
   memory (objs g r) \<noteq> [] \<and> last (memory (objs g r)) = event_item e \<Longrightarrow>
   memory (objs (fold (deliver e) hs g) r) \<noteq> [] \<and>
   last (memory (objs (fold (deliver e) hs g) r)) = event_item e"
proof (induction hs arbitrary: g)
  case Nil
  then show ?case by simp
next
  case (Cons h hs)
  have "memory (objs (deliver e h g) r) \<noteq> [] \<and>
        last (memory (objs (deliver e h g) r)) = event_item e"
    using Cons.prems handle_event_delivers[of e "objs g r"] by (auto simp: deliver_def)
  with Cons.IH[of "deliver e h g"] Cons.prems(1) show ?case by simp
qed

lemma fold_deliver_reaches:
  "r \<in> set hs \<Longrightarrow> target_id e = None \<or> target_id e = Some (agent_id (objs g r)) \<Longrightarrow>
   memory (objs (fold (deliver e) hs g) r) \<noteq> [] \<and>
   last (memory (objs (fold (deliver e) hs g) r)) = event_item e"
proof (induction hs arbitrary: g)
  case Nil
  then show ?case by simp
next
  case (Cons h hs)
  show ?case
  proof (cases "h = r")
    case True
    have "memory (objs (deliver e h g) r) \<noteq> [] \<and>
          last (memory (objs (deliver e h g) r)) = event_item e"
      using Cons.prems(2) handle_event_delivers[of e "objs g r"] by (simp add: deliver_def True)
    with fold_deliver_keeps[of e "deliver e h g" r hs] Cons.prems(2) show ?thesis by simp
  next
    case False
    with Cons.prems have "r \<in> set hs" by simp
    from Cons.IH[OF this, of "deliver e h g"] Cons.prems(2) show ?thesis by simp
  qed
qed

lemma publish_handlers [simp]: "handlers (fst (publish e em g)) = handlers em"
  by (simp add: publish_def Let_def)

lemma publish_objs:
  "objs (snd (publish e em g)) =
     objs (fold (deliver e) (case handlers em (ev_type e) of None \<Rightarrow> [] | Some hs \<Rightarrow> hs) g)"
proof -
  have "(\<lambda>h g. set_obj h (handle_event e (objs g h)) g) = deliver e"
    by (intro ext) (simp add: deliver_def)
  then show ?thesis by (simp add: publish_def Let_def split: option.splits)
qed

lemma publish_agent_id [simp]: "agent_id (objs (snd (publish e em g)) q) = agent_id (objs g q)"
  by (simp add: publish_objs)

lemma remove_agent_handlers:
  "handlers (event_manager (fst (remove_agent i eng g))) = handlers (event_manager eng)"
  by (simp add: remove_agent_def Let_def split_beta split: option.splits)

lemma remove_agent_agent_id [simp]:
  "agent_id (objs (snd (remove_agent i eng g)) q) = agent_id (objs g q)"
  by (simp add: remove_agent_def Let_def split_beta split: option.splits)

lemma World_add_agent_agent_id [simp]:
  "agent_id (objs (snd (World_add_agent r w g)) q) = agent_id (objs g q)"
  by (simp add: World_add_agent_def Let_def)

lemma add_agent_agent_id [simp]:
  "agent_id (objs (snd (snd (add_agent r eng g))) q) = agent_id (objs g q)"
  by (simp add: add_agent_def Let_def split_beta)

lemma add_agent_handlers:
  assumes "int (length (engine_agents eng)) < max_agents (config eng)"
  shows "\<exists>hs. handlers (event_manager (fst (snd (add_agent r eng g)))) AGENT_SPAWN = Some hs
               \<and> r \<in> set hs"
    and "\<exists>hs. handlers (event_manager (fst (snd (add_agent r eng g)))) ENVIRONMENT_CHANGE = Some hs
               \<and> r \<in> set hs"
  using assms by (simp_all add: add_agent_def Let_def split_beta subscribe_def)


lemma publish_delivers:
  assumes "handlers em (ev_type e) = Some hs" "r \<in> set hs"
    and "target_id e = None \<or> target_id e = Some (agent_id (objs g r))"
  shows "memory (objs (snd (publish e em g)) r) \<noteq> [] \<and>
         last (memory (objs (snd (publish e em g)) r)) = event_item e"
  using fold_deliver_reaches[OF assms(2,3)] assms(1) by (simp add: publish_objs)

text \<open>
  C10. \<open>SimulatorEngine.remove_agent\<close> never changes the handler lists of the event
  manager. When an agent object is accepted by \<open>add_agent\<close> and then removed by its id, its
  id is no longer in the registry, but the object is still in the handler lists of
  \<open>AGENT_SPAWN\<close> and \<open>ENVIRONMENT_CHANGE\<close>, and an event of either type published after the
  removal still reaches its \<open>handle_event\<close>: for a broadcast event, or one addressed to the
  agent, the entry for that event is the last item of the removed agent's memory.
\<close>

theorem removed_agent_stays_subscribed:
  assumes room: "int (length (engine_agents eng)) < max_agents (config eng)"
    and kind: "ev_type e = AGENT_SPAWN \<or> ev_type e = ENVIRONMENT_CHANGE"
    and tgt: "target_id e = None \<or> target_id e = Some (agent_id (objs g r))"
  shows "handlers (event_manager (fst (remove_agent j eng' g'))) = handlers (event_manager eng') \<and>
         handlers (event_manager (fst (add_then_remove r eng g))) =
           handlers (event_manager (fst (snd (add_agent r eng g)))) \<and>
         agent_id (objs g r) \<notin> fst ` set (engine_agents (fst (add_then_remove r eng g))) \<and>
         (\<exists>hs. handlers (event_manager (fst (add_then_remove r eng g))) (ev_type e) = Some hs \<and>
               r \<in> set hs) \<and>
         (let g' = snd (publish e (event_manager (fst (add_then_remove r eng g)))
                          (snd (add_then_remove r eng g)))
          in memory (objs g' r) \<noteq> [] \<and> last (memory (objs g' r)) = event_item e)"
proof -
  define eng1 where "eng1 = fst (snd (add_agent r eng g))"
  define g1 where "g1 = snd (snd (add_agent r eng g))"
  define i where "i = agent_id (objs g r)"
  have i1: "agent_id (objs g1 r) = i" by (simp add: g1_def i_def)
  have atr: "add_then_remove r eng g = remove_agent i eng1 g1"
    by (simp add: add_then_remove_def split_beta eng1_def g1_def i_def)
  have h: "handlers (event_manager (fst (remove_agent i eng1 g1))) = handlers (event_manager eng1)"
    by (rule remove_agent_handlers)
  have k: "i \<notin> fst ` set (engine_agents (fst (remove_agent i eng1 g1)))"
    by (simp add: remove_agent_keys)
  from kind add_agent_handlers[OF room, of r g]
  obtain hs where hs: "handlers (event_manager eng1) (ev_type e) = Some hs" "r \<in> set hs"
    unfolding eng1_def by auto
  have "target_id e = None \<or>
        target_id e = Some (agent_id (objs (snd (remove_agent i eng1 g1)) r))"
    using tgt by (simp add: i1 i_def)
  from publish_delivers[OF _ hs(2) this, of "event_manager (fst (remove_agent i eng1 g1))"] hs(1) h
  have d: "memory (objs (snd (publish e (event_manager (fst (remove_agent i eng1 g1)))
                             (snd (remove_agent i eng1 g1)))) r) \<noteq> [] \<and>
           last (memory (objs (snd (publish e (event_manager (fst (remove_agent i eng1 g1)))
                             (snd (remove_agent i eng1 g1)))) r)) = event_item e"
    by simp
  from remove_agent_handlers[of j eng' g'] h k hs d show ?thesis
    unfolding atr Let_def eng1_def[symmetric] i_def[symmetric] by simp
qed

theorem removed_agent_stays_subscribed_witness:
  "int (length (engine_agents roomy_engine)) < max_agents (config roomy_engine) \<and>
   ev_type weather_event = ENVIRONMENT_CHANGE \<and> target_id weather_event = None \<and>
   handlers (event_manager (fst (remove_agent ''a'' demo_engine demo_glob))) =
     handlers (event_manager demo_engine) \<and>
   handlers (event_manager (fst (add_then_remove 2 roomy_engine demo_glob))) =
     handlers (event_manager (fst (snd (add_agent 2 roomy_engine demo_glob)))) \<and>
   ''c'' \<notin> fst ` set (engine_agents (fst (add_then_remove 2 roomy_engine demo_glob))) \<and>
   last (memory (objs (snd (publish weather_event
            (event_manager (fst (add_then_remove 2 roomy_engine demo_glob)))
            (snd (add_then_remove 2 roomy_engine demo_glob)))) 2)) = event_item weather_event"
proof -
  have a: "int (length (engine_agents roomy_engine)) < max_agents (config roomy_engine)"
    by (simp add: roomy_engine_def demo_engine_def demo_config_def)
  have b: "ev_type weather_event = AGENT_SPAWN \<or> ev_type weather_event = ENVIRONMENT_CHANGE"
    by (simp add: weather_event_def)
  have c: "target_id weather_event = None \<or>
           target_id weather_event = Some (agent_id (objs demo_glob 2))"
    by (simp add: weather_event_def)
  have n: "agent_id (objs demo_glob 2) = ''c''"
    by (simp add: demo_glob_def mk_glob_def demo_objs_def mk_agent_def)
  from removed_agent_stays_subscribed[OF a b c, of "''a''" demo_engine demo_glob] a n show ?thesis
    by (simp add: Let_def weather_event_def)
qed

subsection \<open>Runs with the same seed\<close>

lemma init_ignores_seed:
  "snd (SimulatorEngine_init (cfg\<lparr>random_seed := s\<rparr>) g) = snd (SimulatorEngine_init cfg g) \<and>
   world (fst (SimulatorEngine_init (cfg\<lparr>random_seed := s\<rparr>) g)) =
     world (fst (SimulatorEngine_init cfg g))"
  by (simp add: SimulatorEngine_init_def split_beta)

lemma demo_refresh_any:
  "objs g = demo_objs \<Longrightarrow> refresh_index g [(''a'', 0), (''b'', 1)] demo_grid = demo_grid"
  using refresh_index_objs[of g demo_glob "[(''a'', 0), (''b'', 1)]" demo_grid] demo_refresh
  by (simp add: demo_glob_def mk_glob_def)

lemma demo_physics_phase:
  "physics_phase demo_engine (mk_glob demo_objs d) = (demo_engine, after_physics d)"
proof -
  have "refresh_index (mk_glob demo_objs d) [(''a'', 0), (''b'', 1)] demo_grid = demo_grid"
    by (rule demo_refresh_any) (simp add: mk_glob_def)
  then have r: "refresh_index (mk_glob demo_objs d) (world_agents demo_world)
                  (spatial_grid demo_world) = demo_grid"
    by (simp add: demo_world_def)
  show ?thesis
    apply (simp add: physics_phase_def demo_engine_def demo_config_def SimulationConfig_def
        World_update_physics_def split_beta r)
    apply (simp add: demo_world_def)
    apply (simp add: phys_eval demo_objs_def Let_def after_physics_def)
    done
qed

lemma demo_agent_loop:
  "update_agents idle_behaviours dt w [(''a'', 0), (''b'', 1)] [] (after_physics d) =
     Inr ([], after_agents d)"
  by (simp add: idle_behaviours_def after_physics_def after_agents_def is_alive_def mk_agent_def
        log_op_def set_obj_def consume_energy_def Let_def fun_upd_twist)

lemma World_update_physics_glob:
  "snd (snd (World_update_physics dt w g)) =
     snd (snd (PhysicsEngine_update (world_agents w) dt (physics w) (log_op OpGridRefresh g)))"
  by (simp add: World_update_physics_def split_beta Let_def)

lemma calm_env:
  "World_update_environment dt demo_world (after_agents (\<lambda>_. 1 / 2)) =
     (demo_world\<lparr>time := dt\<rparr>,
      (after_agents (\<lambda>_. 1 / 2))\<lparr>rnd_pos := 3,
         trace := trace (after_agents (\<lambda>_. 1 / 2)) @ [OpEnvironment]\<rparr>)"
  using demo_env_any[of "after_agents (\<lambda>_. 1 / 2)" dt] by (simp add: after_agents_def)

lemma windy_env:
  "World_update_environment dt demo_world (after_agents windy_draws) =
     (demo_world\<lparr>time := dt, wind_speed := 1 / 4,
                  physics := set_wind (1 / 4) 0 (physics demo_world)\<rparr>,
      (after_agents windy_draws)\<lparr>rnd_pos := 5,
         trace := trace (after_agents windy_draws) @ [OpEnvironment]\<rparr>)"
  by (simp add: World_update_environment_def change_temperature_def change_humidity_def
        change_wind_def rnd_defs log_op_def demo_world_def Let_def after_agents_def windy_draws_def)

lemma demo_step_eval:
  "step no_hooks idle_behaviours demo_engine (mk_glob demo_objs d) =
     Inr (let (events, w, g) = World_update (1 / 10) demo_world (after_agents d)
          in (demo_engine\<lparr>world := w, current_step := 1, simulation_time := 1 / 10\<rparr>, g))"
proof -
  have c: "time_step (config demo_engine) = 1 / 10" "world demo_engine = demo_world"
    "engine_agents demo_engine = [(''a'', 0), (''b'', 1)]" "\<not> paused demo_engine"
    "current_step demo_engine = 0" "simulation_time demo_engine = 0"
    by (simp_all add: demo_engine_def demo_config_def SimulationConfig_def)
  have loop: "update_agents idle_behaviours (time_step (config demo_engine)) (world demo_engine)
                (engine_agents demo_engine) [] (after_physics d) = Inr ([], after_agents d)"
    unfolding c(3) by (rule demo_agent_loop)
  show ?thesis
    by (simp add: step_def no_hooks_def step_core_def demo_physics_phase loop split_beta Let_def)
       (simp add: c)
qed

lemma calm_velocity:
  "velocity (objs (snd (snd (World_update (1 / 10) demo_world (after_agents (\<lambda>_. 1 / 2))))) 0) =
     (361 / 20, 0)"
  by (simp add: World_update_def calm_env World_update_physics_glob)
     (simp add: demo_world_def phys_eval after_agents_def Let_def)

lemma windy_velocity:
  "velocity (objs (snd (snd (World_update (1 / 10) demo_world (after_agents windy_draws)))) 0) =
     (14459 / 800, 0)"
  by (simp add: World_update_def windy_env World_update_physics_glob)
     (simp add: demo_world_def phys_eval after_agents_def set_wind_def Let_def)

text \<open>
  C9. The claim is that two runs with equal configurations, \<open>random_seed\<close> included, and the
  same agents have identical trajectories. No function of the engine or the world reads
  \<open>random_seed\<close>, and the draws of \<open>World.update_environment\<close> come from the global generator,
  which is never seeded. One \<open>step\<close> of the demo engine (\<open>random_seed = 42\<close>, idle agents) under
  two sequences of draws: with no weather change agent \<open>a\<close> ends with velocity 18.05, with a
  wind change of 0.25 it ends with velocity 18.07375.
\<close>

theorem unseeded_runs_diverge:
  "random_seed (config demo_engine) = Some 42 \<and>
   objs windy_glob = objs demo_glob \<and>
   \<not> isl (step no_hooks idle_behaviours demo_engine demo_glob) \<and>
   \<not> isl (step no_hooks idle_behaviours demo_engine windy_glob) \<and>
   velocity (objs (snd (projr (step no_hooks idle_behaviours demo_engine demo_glob))) 0) =
     (361 / 20, 0) \<and>
   velocity (objs (snd (projr (step no_hooks idle_behaviours demo_engine windy_glob))) 0) =
     (14459 / 800, 0)"
proof -
  have "random_seed (config demo_engine) = Some 42"
    by (simp add: demo_engine_def demo_config_def)
  moreover have "objs windy_glob = objs demo_glob"
    by (simp add: windy_glob_def demo_glob_def mk_glob_def)
  moreover have "velocity (objs (snd (projr (step no_hooks idle_behaviours demo_engine demo_glob))) 0) =
     (361 / 20, 0)"
    unfolding demo_glob_def demo_step_eval using calm_velocity by (simp add: split_beta)
  moreover have "velocity (objs (snd (projr (step no_hooks idle_behaviours demo_engine windy_glob))) 0) =
     (14459 / 800, 0)"
    unfolding windy_glob_def demo_step_eval using windy_velocity by (simp add: split_beta)
  ultimately show ?thesis
    by (simp add: demo_glob_def windy_glob_def demo_step_eval)
qed

end
